theory Spec2Isabelle
  imports Complex_Main "HOL-Library.Sublist"
begin

section \<open>Data model\<close>

text \<open>
  The recommender of \<^verbatim>\<open>src/api/groa_ds_api/utils.py\<close> (class \<^verbatim>\<open>MovieUtility\<close>) works on
  movie ids (strings), on the vectors a gensim Word2Vec model stores for them, and on
  pandas dataframes read from a database. Python names that start with an underscore lose
  it here: \<^verbatim>\<open>_aggregate_vectors\<close> is \<open>aggregate_vectors\<close>, \<^verbatim>\<open>__predict\<close> is \<open>predict\<close>,
  \<^verbatim>\<open>__prep_data\<close> is \<open>prep_data\<close>, and so on.
\<close>

type_synonym movie_id = string

text \<open>The exceptions that reach a caller of the modelled methods.\<close>

datatype error = KeyError movie_id | ValueError | TypeError

text \<open>
  A Python or numpy float, as a rating, a weight or a similarity score has it: a number,
  read as a real, or nan. Every comparison with nan is False.
\<close>

datatype pyfloat = Float real | NaN

text \<open>
  numpy's array arithmetic is floating point and is not interpreted: the four operations
  the code applies to vectors are a parameter of every function that computes with them,
  so each theorem holds for whatever these operations return. All four return a value in
  numpy (a division by zero or the mean of an empty list gives inf or nan and a warning,
  not an exception), hence they are total functions here.
  \<^item> \<open>np_mul v w\<close> is \<^verbatim>\<open>v * w\<close> for a vector and a float,
  \<^item> \<open>np_mean vs\<close> is \<^verbatim>\<open>np.mean(vs, axis=0)\<close>,
  \<^item> \<open>np_div v h\<close> is \<^verbatim>\<open>v / h\<close> for a vector and an int,
  \<^item> \<open>np_sub u v\<close> is \<^verbatim>\<open>u - v\<close>.
\<close>

record 'v numpy =
  np_mul :: "'v \<Rightarrow> pyfloat \<Rightarrow> 'v"
  np_mean :: "'v list \<Rightarrow> 'v"
  np_div :: "'v \<Rightarrow> int \<Rightarrow> 'v"
  np_sub :: "'v \<Rightarrow> 'v \<Rightarrow> 'v"

text \<open>
  The model \<^verbatim>\<open>clf\<close>: \<^verbatim>\<open>clf[i]\<close> is the vector of \<open>i\<close> and raises KeyError when \<open>i\<close> is
  not in the vocabulary, so the store is a partial map. \<^verbatim>\<open>clf.similar_by_vector(v, topn=k)\<close>
  is gensim's search, a parameter \<open>sbv v k\<close> that returns a list of (movie id, score)
  pairs or raises.
\<close>

type_synonym 'v store = "movie_id \<rightharpoonup> 'v"
type_synonym 's recs = "(movie_id \<times> 's) list"
type_synonym ('v, 's) search = "'v \<Rightarrow> int \<Rightarrow> error + 's recs"

section \<open>\<^verbatim>\<open>__predict\<close> and its inner functions\<close>

text \<open>
  The polynomial of \<^verbatim>\<open>_aggregate_vectors\<close>,
  \<^verbatim>\<open>w = ((r**3)*-0.00143) + ((r**2)*0.0533) + (r*-0.4695) + 2.1867\<close>, read over the reals;
  of nan it is nan.
\<close>

fun weight :: "pyfloat \<Rightarrow> pyfloat" where
  "weight (Float r) =
     Float (((r ^ 3) * (- 0.00143)) + ((r ^ 2) * 0.0533) + (r * (- 0.4695)) + 2.1867)"
| "weight NaN = NaN"

text \<open>
  The first loop of \<^verbatim>\<open>_aggregate_vectors\<close>, \<^verbatim>\<open>for i in movies\<close>, with the list \<^verbatim>\<open>movie_vec\<close>
  as accumulator. \<^verbatim>\<open>if ratings_dict\<close> is true of a non-empty dict; both \<^verbatim>\<open>except KeyError\<close>
  handlers \<^verbatim>\<open>continue\<close> with the next movie.
\<close>

fun aggregate_movies ::
  "'v numpy \<Rightarrow> 'v store \<Rightarrow> (movie_id \<rightharpoonup> pyfloat) \<Rightarrow> movie_id list \<Rightarrow> 'v list \<Rightarrow> 'v list" where
  "aggregate_movies np clf ratings_dict [] movie_vec = movie_vec"
| "aggregate_movies np clf ratings_dict (i # movies) movie_vec =
     (case clf i of
        None \<Rightarrow> aggregate_movies np clf ratings_dict movies movie_vec
      | Some m_vec \<Rightarrow>
          if ratings_dict \<noteq> Map.empty then
            (case ratings_dict i of
               None \<Rightarrow> aggregate_movies np clf ratings_dict movies movie_vec
             | Some r \<Rightarrow>
                 aggregate_movies np clf ratings_dict movies
                   (movie_vec @ [np_mul np m_vec (weight r)]))
          else aggregate_movies np clf ratings_dict movies (movie_vec @ [m_vec]))"

text \<open>The second loop, \<^verbatim>\<open>for i in feedback_list\<close>: every resolvable item, times 1.8.\<close>

fun aggregate_feedback :: "'v numpy \<Rightarrow> 'v store \<Rightarrow> movie_id list \<Rightarrow> 'v list \<Rightarrow> 'v list" where
  "aggregate_feedback np clf [] movie_vec = movie_vec"
| "aggregate_feedback np clf (i # feedback_list) movie_vec =
     (case clf i of
        None \<Rightarrow> aggregate_feedback np clf feedback_list movie_vec
      | Some f_vec \<Rightarrow>
          aggregate_feedback np clf feedback_list (movie_vec @ [np_mul np f_vec (Float 1.8)]))"

text \<open>The list \<^verbatim>\<open>movie_vec\<close> when \<^verbatim>\<open>_aggregate_vectors\<close> reaches its \<^verbatim>\<open>return\<close>: the pool.\<close>

definition movie_vec_pool ::
  "'v numpy \<Rightarrow> 'v store \<Rightarrow> (movie_id \<rightharpoonup> pyfloat) \<Rightarrow> movie_id list \<Rightarrow> movie_id list \<Rightarrow> 'v list" where
  "movie_vec_pool np clf ratings_dict movies feedback_list =
     (let movie_vec = aggregate_movies np clf ratings_dict movies []
      in if feedback_list \<noteq> [] then aggregate_feedback np clf feedback_list movie_vec
         else movie_vec)"

definition aggregate_vectors ::
  "'v numpy \<Rightarrow> 'v store \<Rightarrow> (movie_id \<rightharpoonup> pyfloat) \<Rightarrow> movie_id list \<Rightarrow> movie_id list \<Rightarrow> 'v" where
  "aggregate_vectors np clf ratings_dict movies feedback_list =
     np_mean np (movie_vec_pool np clf ratings_dict movies feedback_list)"

text \<open>
  \<^verbatim>\<open>_remove_dislikes\<close>. It aggregates with the \<^verbatim>\<open>ratings_dict\<close> of the enclosing
  \<^verbatim>\<open>__predict\<close>, divides by \<^verbatim>\<open>harshness\<close> and subtracts; there is no check of \<^verbatim>\<open>harshness\<close>.
\<close>

definition remove_dislikes ::
  "'v numpy \<Rightarrow> 'v store \<Rightarrow> (movie_id \<rightharpoonup> pyfloat) \<Rightarrow> movie_id list \<Rightarrow> 'v \<Rightarrow> movie_id list \<Rightarrow> int \<Rightarrow> 'v"
  where
  "remove_dislikes np clf ratings_dict bad_movies good_movies_vec rejected_list harshness =
     (let bad_vec = aggregate_vectors np clf ratings_dict bad_movies rejected_list;
          bad_vec = np_div np bad_vec harshness
      in np_sub np good_movies_vec bad_vec)"

text \<open>
  The first statement of \<^verbatim>\<open>_similar_movies\<close>,
  \<^verbatim>\<open>if bad_movies: v = _remove_dislikes(bad_movies, v, harshness=harshness)\<close>:
  the suppression step. The call passes no \<^verbatim>\<open>rejected_list\<close>, which therefore is \<^verbatim>\<open>[]\<close>.
\<close>

definition suppress ::
  "'v numpy \<Rightarrow> 'v store \<Rightarrow> (movie_id \<rightharpoonup> pyfloat) \<Rightarrow> int \<Rightarrow> 'v \<Rightarrow> movie_id list \<Rightarrow> 'v" where
  "suppress np clf ratings_dict harshness v bad_movies =
     (if bad_movies \<noteq> [] then remove_dislikes np clf ratings_dict bad_movies v [] harshness
      else v)"

text \<open>
  The expression \<^verbatim>\<open>clf.similar_by_vector(v, topn=n+1)[1:]\<close>, which \<^verbatim>\<open>_similar_movies\<close> returns
  and \<^verbatim>\<open>get_similar_movies\<close> puts into \<^verbatim>\<open>movies_df\<close>. The slice \<^verbatim>\<open>[1:]\<close> of a list is
  \<open>drop 1\<close> (the empty list stays empty).
\<close>

definition nearest :: "('v, 's) search \<Rightarrow> 'v \<Rightarrow> int \<Rightarrow> error + 's recs" where
  "nearest sbv v n = (case sbv v (n + 1) of Inl e \<Rightarrow> Inl e | Inr found \<Rightarrow> Inr (drop 1 found))"

text \<open>\<^verbatim>\<open>_similar_movies\<close>: suppression when \<^verbatim>\<open>bad_movies\<close> is non-empty, then the search.\<close>

definition similar_movies ::
  "'v numpy \<Rightarrow> 'v store \<Rightarrow> ('v, 's) search \<Rightarrow> (movie_id \<rightharpoonup> pyfloat) \<Rightarrow> int \<Rightarrow>
     'v \<Rightarrow> int \<Rightarrow> movie_id list \<Rightarrow> error + 's recs" where
  "similar_movies np clf sbv ratings_dict harshness v n bad_movies =
     nearest sbv (suppress np clf ratings_dict harshness v bad_movies) n"

text \<open>
  \<^verbatim>\<open>_remove_dupes\<close>. It returns the kept results and assigns the nonlocal \<^verbatim>\<open>dupes\<close>;
  the model returns both, kept first. \<^verbatim>\<open>x[0] in input\<close> is membership in a list.
\<close>

definition remove_dupes ::
  "'s recs \<Rightarrow> movie_id list \<Rightarrow> movie_id list \<Rightarrow> movie_id list \<Rightarrow> movie_id list \<Rightarrow>
     's recs \<times> 's recs" where
  "remove_dupes recs input bad_movies hist_list feedback_list =
     (let all_rated = input @ bad_movies @ hist_list @ feedback_list;
          dupes = [x \<leftarrow> recs. fst x \<in> set input]
      in ([x \<leftarrow> recs. fst x \<notin> set all_rated], dupes))"

text \<open>
  \<^verbatim>\<open>__predict\<close>. \<^verbatim>\<open>val_list\<close> is a parameter the body never reads. The result is the kept
  list; \<^verbatim>\<open>dupes\<close> is dropped when the method returns.
\<close>

definition predict ::
  "'v numpy \<Rightarrow> 'v store \<Rightarrow> ('v, 's) search \<Rightarrow> movie_id list \<Rightarrow> movie_id list \<Rightarrow>
     movie_id list \<Rightarrow> movie_id list \<Rightarrow> (movie_id \<rightharpoonup> pyfloat) \<Rightarrow> movie_id list \<Rightarrow>
     movie_id list \<Rightarrow> int \<Rightarrow> int \<Rightarrow> error + 's recs" where
  "predict np clf sbv input bad_movies hist_list val_list ratings_dict checked_list
     rejected_list n harshness =
     (let aggregated = aggregate_vectors np clf ratings_dict input checked_list
      in case similar_movies np clf sbv ratings_dict harshness aggregated n bad_movies of
           Inl e \<Rightarrow> Inl e
         | Inr recs \<Rightarrow>
             Inr (fst (remove_dupes recs input bad_movies hist_list
                         (checked_list @ rejected_list))))"

section \<open>Dataframes and \<^verbatim>\<open>__prep_data\<close>\<close>

text \<open>
  A pandas dataframe is the list of its rows, a row the tuple of its columns in the order
  of \<^verbatim>\<open>columns=[...]\<close>: \<^verbatim>\<open>['date', 'movie_id', 'rating']\<close> for the ratings,
  \<^verbatim>\<open>['date', 'movie_id']\<close> for the watched, watch and will-not-watch lists. Selecting rows
  with a boolean mask keeps their order.
\<close>

type_synonym date = nat
type_synonym ratings_df = "(date \<times> movie_id \<times> pyfloat) list"
type_synonym watch_df = "(date \<times> movie_id) list"

definition rating_movie_id :: "date \<times> movie_id \<times> pyfloat \<Rightarrow> movie_id" where
  "rating_movie_id row = fst (snd row)"

definition rating :: "date \<times> movie_id \<times> pyfloat \<Rightarrow> pyfloat" where
  "rating row = snd (snd row)"

text \<open>
  The comparisons of a rating with an int threshold, \<^verbatim>\<open>>=\<close>, \<^verbatim>\<open><=\<close>, \<^verbatim>\<open>>\<close> and \<^verbatim>\<open><\<close>. A rating
  that is missing in the database is nan in the dataframe, and compares False.
\<close>

fun float_ge :: "pyfloat \<Rightarrow> int \<Rightarrow> bool" where
  "float_ge (Float x) t = (x \<ge> of_int t)"
| "float_ge NaN t = False"

fun float_le :: "pyfloat \<Rightarrow> int \<Rightarrow> bool" where
  "float_le (Float x) t = (x \<le> of_int t)"
| "float_le NaN t = False"

fun float_gt :: "pyfloat \<Rightarrow> int \<Rightarrow> bool" where
  "float_gt (Float x) t = (x > of_int t)"
| "float_gt NaN t = False"

fun float_lt :: "pyfloat \<Rightarrow> int \<Rightarrow> bool" where
  "float_lt (Float x) t = (x < of_int t)"
| "float_lt NaN t = False"

text \<open>
  \<^verbatim>\<open>pd.Series(ratings_df['rating'].values, index=ratings_df['movie_id']).to_dict()\<close>:
  the rows are entered in order, a later row of the same movie replaces an earlier one.
\<close>

definition to_dict :: "ratings_df \<Rightarrow> (movie_id \<rightharpoonup> pyfloat)" where
  "to_dict df = fold (\<lambda>row m. m(rating_movie_id row \<mapsto> rating row)) df Map.empty"

text \<open>
  \<^verbatim>\<open>__prep_data\<close>. \<^verbatim>\<open>None\<close> for an absent dataframe is \<open>None\<close>. With a \<^verbatim>\<open>watched_df\<close> the
  history list is read from \<^verbatim>\<open>ratings_df\<close>: the rows whose movie id is in neither
  \<^verbatim>\<open>good_list\<close> nor \<^verbatim>\<open>bad_list\<close>; without one it is \<^verbatim>\<open>neutral_list\<close>.
\<close>

definition prep_data ::
  "ratings_df \<Rightarrow> watch_df option \<Rightarrow> watch_df option \<Rightarrow> int \<Rightarrow> int \<Rightarrow>
     movie_id list \<times> movie_id list \<times> movie_id list \<times> movie_id list \<times> (movie_id \<rightharpoonup> pyfloat)"
  where
  "prep_data ratings_df watched_df watchlist_df good_threshold bad_threshold =
     (let good_df = [row \<leftarrow> ratings_df. float_ge (rating row) good_threshold];
          bad_df = [row \<leftarrow> ratings_df. float_le (rating row) bad_threshold];
          neutral_df = [row \<leftarrow> ratings_df.
                          float_gt (rating row) bad_threshold \<and>
                          float_lt (rating row) good_threshold];
          good_list = map rating_movie_id good_df;
          bad_list = map rating_movie_id bad_df;
          neutral_list = map rating_movie_id neutral_df;
          ratings_dict = to_dict ratings_df;
          hist_list =
            (case watched_df of
               Some w \<Rightarrow>
                 map rating_movie_id
                   [row \<leftarrow> ratings_df. rating_movie_id row \<notin> set (good_list @ bad_list)]
             | None \<Rightarrow> neutral_list);
          val_list = (case watchlist_df of Some w \<Rightarrow> map snd w | None \<Rightarrow> [])
      in (good_list, bad_list, hist_list, val_list, ratings_dict))"

text \<open>The third component of the tuple \<^verbatim>\<open>__prep_data\<close> returns.\<close>

definition hist_list_of ::
  "movie_id list \<times> movie_id list \<times> movie_id list \<times> movie_id list \<times> (movie_id \<rightharpoonup> pyfloat)
     \<Rightarrow> movie_id list" where
  "hist_list_of t = fst (snd (snd t))"

section \<open>Movie data: \<^verbatim>\<open>__get_info\<close> and \<^verbatim>\<open>__get_JSON\<close>\<close>

text \<open>
  \<^verbatim>\<open>id_book\<close> has the columns \<^verbatim>\<open>['movie_id', 'title', 'year', 'genres', 'poster_url']\<close>.
\<close>

type_synonym movie_info = "string \<times> int \<times> string \<times> string"
type_synonym id_book = "(movie_id \<times> movie_info) list"

text \<open>
  A cell of a dataframe holds a value, or is missing (NaN), or holds the string that
  \<^verbatim>\<open>fillna\<close> put in place of a missing value. A score that is nan is a missing value.
\<close>

datatype 'a cell = Val 'a | Missing | Filled string

fun score_cell :: "pyfloat \<Rightarrow> real cell" where
  "score_cell (Float x) = Val x"
| "score_cell NaN = Missing"

type_synonym rec_df = "(movie_id \<times> real cell \<times> movie_info cell) list"

text \<open>
  \<^verbatim>\<open>pd.merge(recs, self.id_book, how='left', on='movie_id')\<close>: every row of \<^verbatim>\<open>recs\<close>, in
  order, once for each row of \<^verbatim>\<open>id_book\<close> with its movie id, and once with the columns
  of \<^verbatim>\<open>id_book\<close> missing when there is none.
\<close>

definition get_info :: "id_book \<Rightarrow> pyfloat recs \<Rightarrow> rec_df" where
  "get_info book recs =
     concat (map (\<lambda>(m, s).
               (case [b \<leftarrow> book. fst b = m] of
                  [] \<Rightarrow> [(m, score_cell s, Missing)]
                | b # bs \<Rightarrow> map (\<lambda>b. (m, score_cell s, Val (snd b))) (b # bs))) recs)"

text \<open>\<^verbatim>\<open>rec_data.fillna("None")\<close>: the string in every missing cell.\<close>

fun fill :: "string \<Rightarrow> 'a cell \<Rightarrow> 'a cell" where
  "fill str Missing = Filled str"
| "fill str c = c"

definition fillna :: "string \<Rightarrow> rec_df \<Rightarrow> rec_df" where
  "fillna str df = map (\<lambda>(m, s, i). (m, fill str s, fill str i)) df"

text \<open>\<^verbatim>\<open>str.split(',')\<close>.\<close>

fun split_comma :: "string \<Rightarrow> string list" where
  "split_comma [] = [[]]"
| "split_comma (c # cs) =
     (if c = CHR '','' then [] # split_comma cs
      else (case split_comma cs of [] \<Rightarrow> [[c]] | w # ws \<Rightarrow> (c # w) # ws))"

text \<open>The response model \<^verbatim>\<open>MovieRec\<close> of \<^verbatim>\<open>models.py\<close>, the dict \<^verbatim>\<open>__get_JSON\<close> builds.\<close>

record MovieRec =
  movie_id :: movie_id
  score :: pyfloat
  title :: string
  year :: int
  genres :: "string list"
  poster_url :: string

text \<open>
  \<^verbatim>\<open>rec['score'] = float(rec['score']) if not isinstance(rec['score'], str) else 0.0\<close>:
  a score that \<^verbatim>\<open>fillna\<close> replaced by a string becomes 0.0, a missing one stays nan.
\<close>

fun json_score :: "real cell \<Rightarrow> pyfloat" where
  "json_score (Filled str) = Float 0"
| "json_score (Val x) = Float x"
| "json_score Missing = NaN"

text \<open>
  \<^verbatim>\<open>__get_JSON\<close>, the loop over the rows. In a row without movie data \<^verbatim>\<open>year\<close> is NaN, or
  the string \<^verbatim>\<open>"None"\<close> after \<^verbatim>\<open>fillna("None")\<close>; \<^verbatim>\<open>int(rec['year'])\<close> raises ValueError on
  both.
\<close>

fun get_JSON :: "rec_df \<Rightarrow> error + MovieRec list" where
  "get_JSON [] = Inr []"
| "get_JSON ((m, s, Val (t, y, g, p)) # rec_df) =
     (case get_JSON rec_df of
        Inl e \<Rightarrow> Inl e
      | Inr rec_json \<Rightarrow>
          Inr (\<lparr>movie_id = m, score = json_score s, title = t, year = y,
                 genres = split_comma g, poster_url = p\<rparr> # rec_json))"
| "get_JSON ((m, s, Missing) # rec_df) = Inl ValueError"
| "get_JSON ((m, s, Filled str) # rec_df) = Inl ValueError"

section \<open>Public methods\<close>

text \<open>
  \<^verbatim>\<open>get_most_similar_title\<close>. \<^verbatim>\<open>vocab\<close> is the domain of the store.
  \<^verbatim>\<open>clf.wv.most_similar_to_given\<close> is gensim's, the parameter \<open>most_similar\<close>.
\<close>

definition get_most_similar_title ::
  "'v store \<Rightarrow> (movie_id \<Rightarrow> movie_id list \<Rightarrow> error + movie_id) \<Rightarrow> movie_id \<Rightarrow> movie_id list \<Rightarrow>
     error + movie_id" where
  "get_most_similar_title clf most_similar ident id_list =
     (if ident \<notin> dom clf then Inr []
      else (let id_list = [i \<leftarrow> id_list. i \<in> dom clf]
            in most_similar ident id_list))"

text \<open>
  gensim's \<^verbatim>\<open>most_similar_to_given(entity1, entities_list)\<close> is
  \<^verbatim>\<open>entities_list[argmax([self.similarity(entity1, entity) for entity in entities_list])]\<close>;
  numpy's \<^verbatim>\<open>argmax\<close> is the first index of the greatest element and raises ValueError on
  an empty sequence. The similarity of two movies is a parameter.
\<close>

fun first_index :: "'a list \<Rightarrow> 'a \<Rightarrow> nat" where
  "first_index [] y = 0"
| "first_index (x # xs) y = (if x = y then 0 else Suc (first_index xs y))"

definition argmax :: "real list \<Rightarrow> error + nat" where
  "argmax xs = (case xs of [] \<Rightarrow> Inl ValueError | x # ys \<Rightarrow> Inr (first_index xs (fold max ys x)))"

definition most_similar_to_given ::
  "(movie_id \<Rightarrow> movie_id \<Rightarrow> real) \<Rightarrow> movie_id \<Rightarrow> movie_id list \<Rightarrow> error + movie_id" where
  "most_similar_to_given similarity entity1 entities_list =
     (case argmax (map (similarity entity1) entities_list) of
        Inl e \<Rightarrow> Inl e
      | Inr k \<Rightarrow> Inr (entities_list ! k))"

text \<open>The request models \<^verbatim>\<open>SimInput\<close> and \<^verbatim>\<open>RecInput\<close> of \<^verbatim>\<open>models.py\<close>.\<close>

record SimInput =
  sim_movie_id :: movie_id
  num_movies :: int

record RecInput =
  user_id :: int
  num_recs :: int
  good_threshold :: int
  bad_threshold :: int
  harshness :: int

text \<open>What a public method returns: a plain string, or the dict \<^verbatim>\<open>{"data": ...}\<close>.\<close>

datatype response = Message string | Data "MovieRec list"

text \<open>\<^verbatim>\<open>get_similar_movies\<close>. \<^verbatim>\<open>clf[movie_id]\<close> is not guarded: its KeyError leaves the method.\<close>

definition get_similar_movies ::
  "'v store \<Rightarrow> ('v, pyfloat) search \<Rightarrow> id_book \<Rightarrow> SimInput \<Rightarrow> error + response" where
  "get_similar_movies clf sbv book payload =
     (let m = sim_movie_id payload; n = num_movies payload
      in case clf m of
           None \<Rightarrow> Inl (KeyError m)
         | Some m_vec \<Rightarrow>
             (case nearest sbv m_vec n of
                Inl e \<Rightarrow> Inl e
              | Inr movies_df \<Rightarrow>
                  (case get_JSON (get_info book movies_df) of
                     Inl e \<Rightarrow> Inl e
                   | Inr js \<Rightarrow> Inr (Data js))))"

text \<open>
  The database holds four tables of rows keyed by a user id. What a request does beyond
  its result is recorded as the list of its calls, in order: a query of a table, the
  closing of the cursor, the run of \<^verbatim>\<open>__predict\<close> (aggregation, suppression and search),
  and the task handed to \<^verbatim>\<open>background_tasker\<close>.
\<close>

record database =
  user_ratings :: "(int \<times> date \<times> movie_id \<times> pyfloat) list"
  user_watchlist :: "(int \<times> date \<times> movie_id) list"
  user_watched :: "(int \<times> date \<times> movie_id) list"
  user_willnotwatchlist :: "(int \<times> date \<times> movie_id) list"

datatype call = Execute string int | Cursor_close | Predict | Add_task

text \<open>\<^verbatim>\<open>SELECT ... FROM table WHERE user_id=%s\<close>, then \<^verbatim>\<open>fetchall\<close>.\<close>

definition fetchall :: "(int \<times> 'row) list \<Rightarrow> int \<Rightarrow> 'row list" where
  "fetchall table u = map snd [r \<leftarrow> table. fst r = u]"

text \<open>
  \<^verbatim>\<open>get_recommendations\<close>: the result and the calls made. \<^verbatim>\<open>__prep_data\<close> is called with
  the watched and the watch list dataframes, \<^verbatim>\<open>__predict\<close> with no feedback lists; the
  movie data is merged in, missing cells are filled with \<^verbatim>\<open>"None"\<close>, and the rows are
  turned into JSON.
\<close>

definition get_recommendations ::
  "'v numpy \<Rightarrow> 'v store \<Rightarrow> ('v, pyfloat) search \<Rightarrow> id_book \<Rightarrow> database \<Rightarrow> RecInput \<Rightarrow>
     (error + response) \<times> call list" where
  "get_recommendations np clf sbv book db payload =
     (let u = user_id payload;
          n = num_recs payload;
          ratings = fetchall (user_ratings db) u
      in if length ratings = 0
         then (Inr (Message ''User does not have ratings''),
               [Execute ''user_ratings'' u, Cursor_close])
         else
           (let watchlist = fetchall (user_watchlist db) u;
                watched = fetchall (user_watched db) u;
                willnotwatchlist_df = fetchall (user_willnotwatchlist db) u;
                queries = [Execute ''user_ratings'' u, Execute ''user_watchlist'' u,
                           Execute ''user_watched'' u, Execute ''user_willnotwatchlist'' u];
                (good_list, bad_list, hist_list, val_list, ratings_dict) =
                  prep_data ratings (Some watched) (Some watchlist)
                    (good_threshold payload) (bad_threshold payload)
            in case predict np clf sbv good_list bad_list hist_list val_list ratings_dict
                      [] [] n (harshness payload) of
                 Inl e \<Rightarrow> (Inl e, queries @ [Predict])
               | Inr w2v_preds \<Rightarrow>
                   (case get_JSON (fillna ''None'' (get_info book w2v_preds)) of
                      Inl e \<Rightarrow> (Inl e, queries @ [Predict])
                    | Inr rec_json \<Rightarrow> (Inr (Data rec_json), queries @ [Predict, Add_task]))))"

section \<open>A sample store and library\<close>

text \<open>
  For evaluation at concrete inputs, vectors are the expressions that compute them: the
  four numpy operations are the constructors, so a result shows which operations the code
  applied, in which order, to which stored vectors.
\<close>

datatype ndarray =
  Vec "real list"
| Mul ndarray pyfloat
| Mean "ndarray list"
| Div ndarray int
| Sub ndarray ndarray

definition symbolic :: "ndarray numpy" where
  "symbolic = \<lparr>np_mul = Mul, np_mean = Mean, np_div = Div, np_sub = Sub\<rparr>"

text \<open>The four-movie store of the specification's end-to-end scenario.\<close>

definition sample_clf :: "ndarray store" where
  "sample_clf = [''A'' \<mapsto> Vec [1, 0], ''B'' \<mapsto> Vec [0.9, 0.1], ''C'' \<mapsto> Vec [- 1, 0],
                 ''D'' \<mapsto> Vec [0, 1]]"

text \<open>
  A sample search: the first \<open>k\<close> movies of one fixed ranking, whatever the query; on the
  mean of no vectors, which is a bare nan and not an array, it raises TypeError.
\<close>

definition sample_sbv :: "(ndarray, pyfloat) search" where
  "sample_sbv v k =
     (if v = Mean [] then Inl TypeError
      else Inr (take (nat k)
             [(''A'', Float 1), (''B'', Float 0.99), (''D'', Float 0), (''C'', Float (- 1))]))"

definition sample_book :: id_book where
  "sample_book = [(''A'', (''Alien'', 1979, ''Horror,Sci-Fi'', ''a.jpg'')),
                  (''B'', (''Brazil'', 1985, ''Drama,Sci-Fi'', ''b.jpg'')),
                  (''C'', (''Casablanca'', 1942, ''Drama'', ''c.jpg'')),
                  (''D'', (''Dune'', 1984, ''Sci-Fi'', ''d.jpg''))]"

definition sample_db :: database where
  "sample_db = \<lparr>user_ratings = [(1, 10, ''A'', Float 5), (1, 11, ''C'', Float 1)],
                 user_watchlist = [(1, 12, ''D'')],
                 user_watched = [(1, 10, ''A'')],
                 user_willnotwatchlist = []\<rparr>"

definition sample_similarity :: "movie_id \<Rightarrow> movie_id \<Rightarrow> real" where
  "sample_similarity a b = (if a = b then 1 else 0)"

section \<open>The loops of aggregation\<close>

text \<open>Both loops only append to \<^verbatim>\<open>movie_vec\<close>, so what they add does not depend on it.\<close>

lemma aggregate_movies_acc:
  "aggregate_movies np clf rd ms (acc @ acc') = acc @ aggregate_movies np clf rd ms acc'"
  by (induction ms arbitrary: acc') (auto split: option.splits)

lemma aggregate_movies_append:
  "aggregate_movies np clf rd (xs @ ys) acc =
     aggregate_movies np clf rd xs acc @ aggregate_movies np clf rd ys []"
proof (induction xs arbitrary: acc)
  case Nil
  show ?case using aggregate_movies_acc[of np clf rd ys acc "[]"] by simp
next
  case (Cons i xs)
  from Cons.IH show ?case by (auto split: option.splits)
qed

lemma aggregate_feedback_acc:
  "aggregate_feedback np clf fb (acc @ acc') = acc @ aggregate_feedback np clf fb acc'"
  by (induction fb arbitrary: acc') (auto split: option.splits)

lemma movie_vec_pool_eq:
  "movie_vec_pool np clf rd ms fb =
     aggregate_movies np clf rd ms [] @ aggregate_feedback np clf fb []"
  using aggregate_feedback_acc[of np clf fb "aggregate_movies np clf rd ms []" "[]"]
  by (simp add: movie_vec_pool_def Let_def)


section \<open>Aggregation\<close>

text \<open>
  C1, as amended. In \<^verbatim>\<open>_aggregate_vectors\<close> an item \<open>i\<close> whose vector \<open>m_vec\<close> is in the
  store contributes to the pool as follows. When the rating map is non-empty and has no
  entry for \<open>i\<close>, the item is skipped: the pool is the pool of the list without it. When
  the rating map has the rating \<open>r\<close> for \<open>i\<close>, the pool holds \<open>m_vec\<close> times \<open>weight r\<close> at
  the item's place. Only when the rating map is empty is the item included unweighted.
\<close>

theorem unrated_item_skipped:
  assumes "clf i = Some m_vec"
  shows "(rd \<noteq> Map.empty \<and> rd i = None \<longrightarrow>
            movie_vec_pool np clf rd (xs @ i # ys) fb = movie_vec_pool np clf rd (xs @ ys) fb) \<and>
         (rd i = Some r \<longrightarrow>
            movie_vec_pool np clf rd (xs @ i # ys) fb =
              aggregate_movies np clf rd xs [] @ [np_mul np m_vec (weight r)] @
              aggregate_movies np clf rd ys [] @ aggregate_feedback np clf fb []) \<and>
         (rd = Map.empty \<longrightarrow>
            movie_vec_pool np clf rd (xs @ i # ys) fb =
              aggregate_movies np clf rd xs [] @ [m_vec] @
              aggregate_movies np clf rd ys [] @ aggregate_feedback np clf fb [])"
proof -
  have split: "movie_vec_pool np clf rd (xs @ i # ys) fb =
      aggregate_movies np clf rd xs [] @ aggregate_movies np clf rd (i # ys) [] @
      aggregate_feedback np clf fb []"
    by (simp add: movie_vec_pool_eq aggregate_movies_append[of np clf rd xs "i # ys"]
        del: aggregate_movies.simps)
  have without: "movie_vec_pool np clf rd (xs @ ys) fb =
      aggregate_movies np clf rd xs [] @ aggregate_movies np clf rd ys [] @
      aggregate_feedback np clf fb []"
    by (simp add: movie_vec_pool_eq aggregate_movies_append[of np clf rd xs ys])
  have one: "aggregate_movies np clf rd ys [x] = x # aggregate_movies np clf rd ys []" for x
    using aggregate_movies_acc[of np clf rd ys "[x]" "[]"] by simp
  have skipped: "aggregate_movies np clf rd (i # ys) [] = aggregate_movies np clf rd ys []"
    if "rd \<noteq> Map.empty" "rd i = None"
    using assms that by simp
  have rated: "aggregate_movies np clf rd (i # ys) [] =
      np_mul np m_vec (weight r) # aggregate_movies np clf rd ys []"
    if r: "rd i = Some r"
  proof -
    from r have "rd \<noteq> Map.empty" by auto
    with r assms show ?thesis by (simp add: one)
  qed
  have unrated: "aggregate_movies np clf rd (i # ys) [] = m_vec # aggregate_movies np clf rd ys []"
    if e: "rd = Map.empty"
  proof -
    have "aggregate_movies np clf rd (i # ys) [] = aggregate_movies np clf rd ys [m_vec]"
      using assms e by simp
    then show ?thesis by (simp only: one)
  qed
  show ?thesis
  proof (intro conjI impI)
    assume "rd \<noteq> Map.empty \<and> rd i = None"
    then have "aggregate_movies np clf rd (i # ys) [] = aggregate_movies np clf rd ys []"
      using skipped by blast
    then show "movie_vec_pool np clf rd (xs @ i # ys) fb = movie_vec_pool np clf rd (xs @ ys) fb"
      by (simp only: split without)
  next
    assume "rd i = Some r"
    then have "aggregate_movies np clf rd (i # ys) [] =
        np_mul np m_vec (weight r) # aggregate_movies np clf rd ys []"
      by (rule rated)
    then show "movie_vec_pool np clf rd (xs @ i # ys) fb =
        aggregate_movies np clf rd xs [] @ [np_mul np m_vec (weight r)] @
        aggregate_movies np clf rd ys [] @ aggregate_feedback np clf fb []"
      by (simp only: split append_Cons append_Nil)
  next
    assume "rd = Map.empty"
    then have "aggregate_movies np clf rd (i # ys) [] = m_vec # aggregate_movies np clf rd ys []"
      by (rule unrated)
    then show "movie_vec_pool np clf rd (xs @ i # ys) fb =
        aggregate_movies np clf rd xs [] @ [m_vec] @
        aggregate_movies np clf rd ys [] @ aggregate_feedback np clf fb []"
      by (simp only: split append_Cons append_Nil)
  qed
qed

theorem unrated_item_skipped_witness:
  "sample_clf ''A'' = Some (Vec [1, 0]) \<and>
   movie_vec_pool symbolic sample_clf [''B'' \<mapsto> Float 5] ([''B''] @ ''A'' # [''D'']) [] =
     movie_vec_pool symbolic sample_clf [''B'' \<mapsto> Float 5] ([''B''] @ [''D'']) [] \<and>
   movie_vec_pool symbolic sample_clf [''A'' \<mapsto> Float 5] ([''B''] @ ''A'' # [''D'']) [] =
     [Mul (Vec [1, 0]) (weight (Float 5))] \<and>
   movie_vec_pool symbolic sample_clf Map.empty ([''B''] @ ''A'' # [''D'']) [] =
     [Vec [0.9, 0.1], Vec [1, 0], Vec [0, 1]]"
proof -
  have a: "sample_clf ''A'' = Some (Vec [1, 0])"
    by (simp add: sample_clf_def)
  have b: "sample_clf ''B'' = Some (Vec [0.9, 0.1])" and d: "sample_clf ''D'' = Some (Vec [0, 1])"
    by (simp_all add: sample_clf_def)
  show ?thesis
    using a
      unrated_item_skipped[where clf = sample_clf and i = "''A''" and m_vec = "Vec [1, 0]"
        and rd = "[''B'' \<mapsto> Float 5]" and np = symbolic and xs = "[''B'']" and ys = "[''D'']"
        and fb = "[]" and r = "Float 5"]
      unrated_item_skipped[where clf = sample_clf and i = "''A''" and m_vec = "Vec [1, 0]"
        and rd = "[''A'' \<mapsto> Float 5]" and np = symbolic and xs = "[''B'']" and ys = "[''D'']"
        and fb = "[]" and r = "Float 5"]
      unrated_item_skipped[where clf = sample_clf and i = "''A''" and m_vec = "Vec [1, 0]"
        and rd = Map.empty and np = symbolic and xs = "[''B'']" and ys = "[''D'']"
        and fb = "[]" and r = "Float 5"]
    by (simp add: b d symbolic_def)
qed

theorem unrated_item_included_counterexample:
  "sample_clf ''A'' = Some (Vec [1, 0]) \<and>
   [''B'' \<mapsto> Float 5] \<noteq> Map.empty \<and>
   [''B'' \<mapsto> Float 5] ''A'' = None \<and>
   movie_vec_pool symbolic sample_clf [''B'' \<mapsto> Float 5] [''A'', ''B''] [] =
     [Mul (Vec [0.9, 0.1]) (weight (Float 5))]"
  by (simp add: movie_vec_pool_def sample_clf_def symbolic_def)

text \<open>
  C2, as amended. When the pool is empty, \<^verbatim>\<open>_aggregate_vectors\<close> raises nothing: it returns
  \<^verbatim>\<open>np.mean\<close> of the empty list. \<^verbatim>\<open>__predict\<close> with an empty liked list and no feedback
  hands that value through the suppression step to the search, and fails only if the
  search raises.
\<close>

theorem empty_pool_mean:
  "(movie_vec_pool np clf rd movies fb = [] \<longrightarrow>
      aggregate_vectors np clf rd movies fb = np_mean np []) \<and>
   predict np clf sbv [] bad hist val rd [] rej n h =
     (case nearest sbv (suppress np clf rd h (np_mean np []) bad) n of
        Inl e \<Rightarrow> Inl e
      | Inr recs \<Rightarrow> Inr (fst (remove_dupes recs [] bad hist rej)))"
  by (simp add: aggregate_vectors_def predict_def similar_movies_def movie_vec_pool_def
      cong: sum.case_cong)

theorem empty_pool_mean_witness:
  "movie_vec_pool symbolic sample_clf Map.empty [''Z''] [''Y''] = [] \<and>
   aggregate_vectors symbolic sample_clf Map.empty [''Z''] [''Y''] = np_mean symbolic []"
proof -
  have e: "movie_vec_pool symbolic sample_clf Map.empty [''Z''] [''Y''] = []"
    by (simp add: movie_vec_pool_def sample_clf_def)
  show ?thesis
    using e
      empty_pool_mean[where np = symbolic and clf = sample_clf and rd = Map.empty
        and movies = "[''Z'']" and fb = "[''Y'']" and sbv = sample_sbv and bad = "[]"
        and hist = "[]" and val = "[]" and rej = "[]" and n = 2 and h = 1]
    by simp
qed

theorem empty_pool_fails_counterexample:
  "movie_vec_pool symbolic sample_clf Map.empty [''Z''] [''Y''] = [] \<and>
   aggregate_vectors symbolic sample_clf Map.empty [''Z''] [''Y''] = Mean [] \<and>
   movie_vec_pool symbolic sample_clf Map.empty [''Z''] [] = [] \<and>
   predict symbolic sample_clf sample_sbv [''A''] [''Z''] [] [] Map.empty [] [] 2 1 =
     Inr [(''B'', Float 0.99), (''D'', Float 0)]"
  by (simp add: predict_def similar_movies_def nearest_def suppress_def remove_dislikes_def
      aggregate_vectors_def movie_vec_pool_def sample_clf_def symbolic_def sample_sbv_def
      remove_dupes_def)

section \<open>Suppression\<close>

text \<open>
  C3, as amended. With a non-empty list of disliked movies and \<^verbatim>\<open>harshness\<close> 0 nothing is
  rejected: suppression returns the preference vector minus the aggregate of the disliked
  movies divided by 0, the division being numpy's, and \<^verbatim>\<open>_similar_movies\<close> searches with
  that vector.
\<close>

theorem harshness_zero_divides:
  "bad \<noteq> [] \<Longrightarrow>
     suppress np clf rd 0 v bad =
       np_sub np v (np_div np (aggregate_vectors np clf rd bad []) 0) \<and>
     similar_movies np clf sbv rd 0 v n bad =
       nearest sbv (np_sub np v (np_div np (aggregate_vectors np clf rd bad []) 0)) n"
  by (simp add: suppress_def similar_movies_def remove_dislikes_def)

theorem harshness_zero_divides_witness:
  "[''C''] \<noteq> [] \<and>
   suppress symbolic sample_clf Map.empty 0 (Vec [1, 0]) [''C''] =
     np_sub symbolic (Vec [1, 0])
       (np_div symbolic (aggregate_vectors symbolic sample_clf Map.empty [''C''] []) 0)"
  using harshness_zero_divides[where bad = "[''C'']" and np = symbolic and clf = sample_clf
      and rd = Map.empty and v = "Vec [1, 0]" and sbv = sample_sbv and n = 2]
  by simp

theorem harshness_zero_rejected_counterexample:
  "suppress symbolic sample_clf Map.empty 0 (Vec [1, 0]) [''C''] =
     Sub (Vec [1, 0]) (Div (Mean [Vec [- 1, 0]]) 0) \<and>
   similar_movies symbolic sample_clf sample_sbv Map.empty 0 (Vec [1, 0]) 2 [''C''] =
     Inr [(''B'', Float 0.99), (''D'', Float 0)]"
  by (simp add: similar_movies_def nearest_def suppress_def remove_dislikes_def
      aggregate_vectors_def movie_vec_pool_def sample_clf_def symbolic_def sample_sbv_def)

text \<open>
  C8. With an empty list of disliked movies the suppression step returns the preference
  vector unchanged, whatever \<^verbatim>\<open>harshness\<close> is, and \<^verbatim>\<open>_similar_movies\<close> searches with it.
\<close>

theorem suppress_no_dislikes:
  "suppress np clf rd h v [] = v \<and>
   similar_movies np clf sbv rd h v n [] = nearest sbv v n"
  by (simp add: suppress_def similar_movies_def)

section \<open>Filtering\<close>

text \<open>
  C4. For every result list and every four lists of movie ids, \<^verbatim>\<open>_remove_dupes\<close> keeps
  exactly the results whose movie id is in none of the liked, disliked, history and
  feedback lists, records as duplicates exactly the results whose movie id is in the liked
  list, and the kept results are in the order they have in the result list.
\<close>

theorem remove_dupes_kept_dupes:
  "remove_dupes recs input bad hist fb = (kept, dupes) \<Longrightarrow>
     kept = [x \<leftarrow> recs. fst x \<notin> set input \<and> fst x \<notin> set bad \<and> fst x \<notin> set hist \<and>
                         fst x \<notin> set fb] \<and>
     dupes = [x \<leftarrow> recs. fst x \<in> set input] \<and>
     subseq kept recs \<and>
     set kept = {x \<in> set recs. fst x \<notin> set input \<union> set bad \<union> set hist \<union> set fb} \<and>
     set dupes = {x \<in> set recs. fst x \<in> set input}"
proof -
  assume "remove_dupes recs input bad hist fb = (kept, dupes)"
  then have k: "kept = [x \<leftarrow> recs. fst x \<notin> set (input @ bad @ hist @ fb)]"
    and d: "dupes = [x \<leftarrow> recs. fst x \<in> set input]"
    by (simp_all add: remove_dupes_def Let_def)
  have k': "kept = [x \<leftarrow> recs. fst x \<notin> set input \<and> fst x \<notin> set bad \<and>
      fst x \<notin> set hist \<and> fst x \<notin> set fb]"
    unfolding k by (rule filter_cong) auto
  have "subseq kept recs" unfolding k by (rule subseq_filter_left)
  moreover have "set kept = {x \<in> set recs. fst x \<notin> set input \<union> set bad \<union> set hist \<union> set fb}"
    unfolding k by auto
  moreover have "set dupes = {x \<in> set recs. fst x \<in> set input}"
    unfolding d by auto
  ultimately show ?thesis using k' d by blast
qed

theorem remove_dupes_kept_dupes_witness:
  "remove_dupes [(''A'', 3 :: int), (''B'', 2), (''C'', 1), (''D'', 0)] [''A''] [''C''] [] [''E''] =
     ([(''B'', 2), (''D'', 0)], [(''A'', 3)]) \<and>
   subseq [(''B'', 2 :: int), (''D'', 0)] [(''A'', 3), (''B'', 2), (''C'', 1), (''D'', 0)]"
proof -
  have e: "remove_dupes [(''A'', 3 :: int), (''B'', 2), (''C'', 1), (''D'', 0)] [''A''] [''C''] []
      [''E''] = ([(''B'', 2), (''D'', 0)], [(''A'', 3)])"
    by (simp add: remove_dupes_def)
  have "subseq [(''B'', 2 :: int), (''D'', 0)] [(''A'', 3), (''B'', 2), (''C'', 1), (''D'', 0)]"
    using remove_dupes_kept_dupes[OF e] by (elim conjE)
  with e show ?thesis by (rule conjI)
qed

section \<open>Neighbor search\<close>

text \<open>The rows of the merged dataframe and of the JSON keep the movie ids of the results.\<close>

lemma get_JSON_ids: "get_JSON rows = Inr js \<Longrightarrow> map movie_id js = map fst rows"
  by (induction rows arbitrary: js rule: get_JSON.induct) (auto split: sum.splits)

lemma book_rows_at_most_one:
  "distinct (map fst book) \<Longrightarrow> length [b \<leftarrow> book. fst b = m] \<le> 1"
proof (induction book)
  case Nil
  show ?case by simp
next
  case (Cons x book)
  show ?case
  proof (cases "fst x = m")
    case True
    with Cons.prems have "m \<notin> fst ` set book" by simp
    then have "[b \<leftarrow> book. fst b = m] = []" by (auto simp: filter_empty_conv)
    with True show ?thesis by simp
  next
    case False
    with Cons show ?thesis by simp
  qed
qed

lemma get_info_ids:
  assumes "distinct (map fst book)"
  shows "map fst (get_info book recs) = map fst recs"
proof (induction recs)
  case Nil
  show ?case by (simp add: get_info_def)
next
  case (Cons x recs)
  obtain m s where x: "x = (m, s)" by (cases x)
  have one: "length [b \<leftarrow> book. fst b = m] \<le> 1"
    using assms by (rule book_rows_at_most_one)
  have "map fst (case [b \<leftarrow> book. fst b = m] of
            [] \<Rightarrow> [(m, score_cell s, Missing)]
          | b # bs \<Rightarrow> map (\<lambda>b. (m, score_cell s, Val (snd b))) (b # bs)) = [m]"
    using one by (cases "[b \<leftarrow> book. fst b = m]") auto
  then show ?case using Cons.IH by (simp add: get_info_def x)
qed

text \<open>
  C5. \<^verbatim>\<open>_similar_movies\<close> and \<^verbatim>\<open>get_similar_movies\<close> both evaluate
  \<^verbatim>\<open>clf.similar_by_vector(v, topn=n+1)[1:]\<close>: they ask the search for \<open>n + 1\<close> candidates
  and return what it found without its first entry, and fail when it does. Given that the
  search returns at most \<open>topn\<close> entries with distinct movie ids, as gensim's does, the list
  so obtained holds at most \<open>n\<close> entries (none when \<open>n\<close> is negative) and no movie id
  twice. For \<^verbatim>\<open>get_similar_movies\<close> the same holds of the movies in its response when
  no movie id occurs twice in \<^verbatim>\<open>id_book\<close>.
\<close>

theorem nearest_at_most_n:
  assumes "\<forall>q k found. sbv q k = Inr found \<longrightarrow>
             length found \<le> nat k \<and> distinct (map fst found)"
  shows "nearest sbv v n =
           (case sbv v (n + 1) of Inl e \<Rightarrow> Inl e | Inr found \<Rightarrow> Inr (drop 1 found)) \<and>
         (nearest sbv v n = Inr r \<longrightarrow> length r \<le> nat n \<and> distinct (map fst r)) \<and>
         similar_movies np clf sbv rd h v n bad =
           (case sbv (suppress np clf rd h v bad) (n + 1) of
              Inl e \<Rightarrow> Inl e
            | Inr found \<Rightarrow> Inr (drop 1 found)) \<and>
         (similar_movies np clf sbv rd h v n bad = Inr r' \<longrightarrow>
            length r' \<le> nat n \<and> distinct (map fst r')) \<and>
         (clf (sim_movie_id payload) = Some m_vec \<longrightarrow>
            get_similar_movies clf sbv book payload =
              (case sbv m_vec (num_movies payload + 1) of
                 Inl e \<Rightarrow> Inl e
               | Inr found \<Rightarrow>
                   (case get_JSON (get_info book (drop 1 found)) of
                      Inl e \<Rightarrow> Inl e
                    | Inr js \<Rightarrow> Inr (Data js)))) \<and>
         (clf (sim_movie_id payload) = Some m_vec \<and>
          sbv m_vec (num_movies payload + 1) = Inr found \<longrightarrow>
            length (drop 1 found) \<le> nat (num_movies payload) \<and>
            distinct (map fst (drop 1 found))) \<and>
         (distinct (map fst book) \<and> get_similar_movies clf sbv book payload = Inr (Data js) \<longrightarrow>
            length js \<le> nat (num_movies payload) \<and> distinct (map movie_id js))"
proof -
  have dropped: "length (drop 1 found) \<le> nat k \<and> distinct (map fst (drop 1 found))"
    if "sbv q (k + 1) = Inr found" for q k found
  proof -
    from assms that have "length found \<le> nat (k + 1)" and d: "distinct (map fst found)"
      by blast+
    then have "length (drop 1 found) \<le> nat k" by simp
    moreover have "distinct (map fst (drop 1 found))" using d by (simp add: drop_map[symmetric])
    ultimately show ?thesis by simp
  qed
  have bound: "length s \<le> nat k \<and> distinct (map fst s)" if "nearest sbv q k = Inr s" for q k s
  proof -
    from that obtain found where f: "sbv q (k + 1) = Inr found" and s: "s = drop 1 found"
      by (auto simp: nearest_def split: sum.splits)
    show ?thesis using dropped[OF f] s by simp
  qed
  have c1: "nearest sbv v n =
      (case sbv v (n + 1) of Inl e \<Rightarrow> Inl e | Inr found \<Rightarrow> Inr (drop 1 found))"
    by (simp add: nearest_def)
  have c2: "nearest sbv v n = Inr r \<longrightarrow> length r \<le> nat n \<and> distinct (map fst r)"
    using bound[of v n r] by blast
  have c3: "similar_movies np clf sbv rd h v n bad =
      (case sbv (suppress np clf rd h v bad) (n + 1) of
         Inl e \<Rightarrow> Inl e
       | Inr found \<Rightarrow> Inr (drop 1 found))"
    by (simp add: similar_movies_def nearest_def)
  have c4: "similar_movies np clf sbv rd h v n bad = Inr r' \<longrightarrow>
      length r' \<le> nat n \<and> distinct (map fst r')"
    using bound[of "suppress np clf rd h v bad" n r'] by (simp add: similar_movies_def)
  have c5: "clf (sim_movie_id payload) = Some m_vec \<longrightarrow>
      get_similar_movies clf sbv book payload =
        (case sbv m_vec (num_movies payload + 1) of
           Inl e \<Rightarrow> Inl e
         | Inr found \<Rightarrow>
             (case get_JSON (get_info book (drop 1 found)) of
                Inl e \<Rightarrow> Inl e
              | Inr js \<Rightarrow> Inr (Data js)))"
    by (simp add: get_similar_movies_def nearest_def Let_def split: sum.splits)
  have c6: "clf (sim_movie_id payload) = Some m_vec \<and>
      sbv m_vec (num_movies payload + 1) = Inr found \<longrightarrow>
        length (drop 1 found) \<le> nat (num_movies payload) \<and>
        distinct (map fst (drop 1 found))"
    using dropped[of m_vec "num_movies payload" found] by blast
  have c7: "distinct (map fst book) \<and> get_similar_movies clf sbv book payload = Inr (Data js) \<longrightarrow>
      length js \<le> nat (num_movies payload) \<and> distinct (map movie_id js)"
  proof
    assume a: "distinct (map fst book) \<and> get_similar_movies clf sbv book payload = Inr (Data js)"
    then obtain q s where s: "nearest sbv q (num_movies payload) = Inr s"
      and j: "get_JSON (get_info book s) = Inr js"
      by (auto simp: get_similar_movies_def Let_def split: option.splits sum.splits)
    have ids: "map movie_id js = map fst s"
      using get_JSON_ids[OF j] get_info_ids[of book s] a by simp
    then have "length js = length s" by (metis length_map)
    then show "length js \<le> nat (num_movies payload) \<and> distinct (map movie_id js)"
      using bound[OF s] ids by simp
  qed
  show ?thesis using c1 c2 c3 c4 c5 c6 c7 by blast
qed

theorem nearest_at_most_n_witness:
  "nearest sample_sbv (Vec [1, 0]) 2 = Inr [(''B'', Float 0.99), (''D'', Float 0)] \<and>
   similar_movies symbolic sample_clf sample_sbv Map.empty 1 (Vec [1, 0]) 2 [''C''] =
     Inr [(''B'', Float 0.99), (''D'', Float 0)] \<and>
   length [(''B'', Float 0.99), (''D'', Float 0)] \<le> nat 2 \<and>
   distinct (map fst [(''B'', Float 0.99), (''D'', Float 0)]) \<and>
   sample_clf ''A'' = Some (Vec [1, 0]) \<and>
   sample_sbv (Vec [1, 0]) (2 + 1) = Inr [(''A'', Float 1), (''B'', Float 0.99), (''D'', Float 0)] \<and>
   distinct (map fst sample_book) \<and>
   get_similar_movies sample_clf sample_sbv sample_book \<lparr>sim_movie_id = ''A'', num_movies = 2\<rparr> =
     Inr (Data [\<lparr>movie_id = ''B'', score = Float 0.99, title = ''Brazil'', year = 1985,
                   genres = [''Drama'', ''Sci-Fi''], poster_url = ''b.jpg''\<rparr>,
                \<lparr>movie_id = ''D'', score = Float 0, title = ''Dune'', year = 1984,
                   genres = [''Sci-Fi''], poster_url = ''d.jpg''\<rparr>]) \<and>
   length [\<lparr>movie_id = ''B'', score = Float 0.99, title = ''Brazil'', year = 1985,
              genres = [''Drama'', ''Sci-Fi''], poster_url = ''b.jpg''\<rparr>,
           \<lparr>movie_id = ''D'', score = Float 0, title = ''Dune'', year = 1984,
              genres = [''Sci-Fi''], poster_url = ''d.jpg''\<rparr>] \<le> nat 2"
proof -
  have contract: "\<forall>q k found. sample_sbv q k = Inr found \<longrightarrow>
      length found \<le> nat k \<and> distinct (map fst found)"
  proof (intro allI impI)
    fix q k found assume "sample_sbv q k = Inr found"
    then have "found = take (nat k)
        [(''A'', Float 1), (''B'', Float 0.99), (''D'', Float 0), (''C'', Float (- 1))]"
      by (auto simp: sample_sbv_def split: if_splits)
    then show "length found \<le> nat k \<and> distinct (map fst found)"
      by (simp add: take_map[symmetric])
  qed
  have s: "similar_movies symbolic sample_clf sample_sbv Map.empty 1 (Vec [1, 0]) 2 [''C''] =
      Inr [(''B'', Float 0.99), (''D'', Float 0)]"
    by (simp add: similar_movies_def nearest_def suppress_def remove_dislikes_def
        aggregate_vectors_def movie_vec_pool_def sample_clf_def symbolic_def sample_sbv_def)
  have a: "sample_clf (sim_movie_id \<lparr>sim_movie_id = ''A'', num_movies = 2\<rparr>) = Some (Vec [1, 0])"
    by (simp add: sample_clf_def)
  have f: "sample_sbv (Vec [1, 0]) (num_movies \<lparr>sim_movie_id = ''A'', num_movies = 2\<rparr> + 1) =
      Inr [(''A'', Float 1), (''B'', Float 0.99), (''D'', Float 0)]"
    by (simp add: sample_sbv_def)
  have b: "distinct (map fst sample_book)"
    by (simp add: sample_book_def)
  have g: "get_similar_movies sample_clf sample_sbv sample_book
      \<lparr>sim_movie_id = ''A'', num_movies = 2\<rparr> =
      Inr (Data [\<lparr>movie_id = ''B'', score = Float 0.99, title = ''Brazil'', year = 1985,
                    genres = [''Drama'', ''Sci-Fi''], poster_url = ''b.jpg''\<rparr>,
                 \<lparr>movie_id = ''D'', score = Float 0, title = ''Dune'', year = 1984,
                    genres = [''Sci-Fi''], poster_url = ''d.jpg''\<rparr>])"
    by (simp add: get_similar_movies_def nearest_def sample_clf_def sample_sbv_def get_info_def
        sample_book_def)
  note t = nearest_at_most_n[where sbv = sample_sbv and v = "Vec [1, 0]" and n = 2
      and r = "[(''B'', Float 0.99), (''D'', Float 0)]" and np = symbolic and clf = sample_clf
      and rd = Map.empty and h = 1 and bad = "[''C'']"
      and r' = "[(''B'', Float 0.99), (''D'', Float 0)]"
      and payload = "\<lparr>sim_movie_id = ''A'', num_movies = 2\<rparr>" and m_vec = "Vec [1, 0]"
      and found = "[(''A'', Float 1), (''B'', Float 0.99), (''D'', Float 0)]"
      and book = sample_book
      and js = "[\<lparr>movie_id = ''B'', score = Float 0.99, title = ''Brazil'', year = 1985,
                    genres = [''Drama'', ''Sci-Fi''], poster_url = ''b.jpg''\<rparr>,
                 \<lparr>movie_id = ''D'', score = Float 0, title = ''Dune'', year = 1984,
                    genres = [''Sci-Fi''], poster_url = ''d.jpg''\<rparr>]", OF contract]
  have l4: "length [(''B'', Float 0.99), (''D'', Float 0)] \<le> nat 2 \<and>
      distinct (map fst [(''B'', Float 0.99), (''D'', Float 0)])"
    using t s by blast
  have l7: "length [\<lparr>movie_id = ''B'', score = Float 0.99, title = ''Brazil'', year = 1985,
                       genres = [''Drama'', ''Sci-Fi''], poster_url = ''b.jpg''\<rparr>,
                    \<lparr>movie_id = ''D'', score = Float 0, title = ''Dune'', year = 1984,
                       genres = [''Sci-Fi''], poster_url = ''d.jpg''\<rparr>]
                \<le> nat (num_movies \<lparr>sim_movie_id = ''A'', num_movies = 2\<rparr>)"
    using t b g by blast
  have n: "nearest sample_sbv (Vec [1, 0]) 2 = Inr [(''B'', Float 0.99), (''D'', Float 0)]"
    by (simp add: nearest_def sample_sbv_def)
  have a': "sample_clf ''A'' = Some (Vec [1, 0])" using a by simp
  have f': "sample_sbv (Vec [1, 0]) (2 + 1) =
      Inr [(''A'', Float 1), (''B'', Float 0.99), (''D'', Float 0)]" using f by simp
  from l7 have l7': "length [\<lparr>movie_id = ''B'', score = Float 0.99, title = ''Brazil'',
                       year = 1985, genres = [''Drama'', ''Sci-Fi''], poster_url = ''b.jpg''\<rparr>,
                    \<lparr>movie_id = ''D'', score = Float 0, title = ''Dune'', year = 1984,
                       genres = [''Sci-Fi''], poster_url = ''d.jpg''\<rparr>] \<le> nat 2"
    by simp
  show ?thesis using n s l4 a' f' b g l7' by blast
qed

section \<open>Lookups of a single movie\<close>

text \<open>
  C6. For every movie id that is not in the store, \<^verbatim>\<open>get_similar_movies\<close> fails: the
  KeyError of \<^verbatim>\<open>clf[movie_id]\<close>, which names the unknown id, leaves the method.
\<close>

theorem get_similar_movies_unknown:
  "clf (sim_movie_id payload) = None \<Longrightarrow>
     get_similar_movies clf sbv book payload = Inl (KeyError (sim_movie_id payload))"
  by (simp add: get_similar_movies_def)

theorem get_similar_movies_unknown_witness:
  "sample_clf ''Z'' = None \<and>
   get_similar_movies sample_clf sample_sbv sample_book
     \<lparr>sim_movie_id = ''Z'', num_movies = 10\<rparr> = Inl (KeyError ''Z'')"
proof -
  have z: "sample_clf (sim_movie_id \<lparr>sim_movie_id = ''Z'', num_movies = 10\<rparr>) = None"
    by (simp add: sample_clf_def)
  show ?thesis
    using z
      get_similar_movies_unknown[where clf = sample_clf and sbv = sample_sbv
        and book = sample_book and payload = "\<lparr>sim_movie_id = ''Z'', num_movies = 10\<rparr>"]
    by simp
qed

text \<open>
  C7, at a failing input. \<^verbatim>\<open>get_most_similar_title\<close> for the known movie A and the
  candidate list \<^verbatim>\<open>['Z']\<close>, none of which is in the store: the filtered list is empty and
  \<^verbatim>\<open>most_similar_to_given\<close> raises ValueError, where the claim says "no match". For the
  unknown movie Z the method returns the empty string.
\<close>

theorem get_most_similar_title_no_candidate:
  "get_most_similar_title sample_clf (most_similar_to_given sample_similarity) ''A'' [''Z''] =
     Inl ValueError \<and>
   get_most_similar_title sample_clf (most_similar_to_given sample_similarity) ''A'' [] =
     Inl ValueError \<and>
   get_most_similar_title sample_clf (most_similar_to_given sample_similarity) ''Z'' [''A''] =
     Inr [] \<and>
   get_most_similar_title sample_clf (most_similar_to_given sample_similarity) ''A''
     [''Z'', ''C'', ''A'', ''D''] = Inr ''A''"
  by (simp add: get_most_similar_title_def most_similar_to_given_def argmax_def sample_clf_def
      dom_def sample_similarity_def)

section \<open>Preparing the lists\<close>

lemma filter_by_id:
  assumes "distinct (map rating_movie_id df)"
  shows "[row \<leftarrow> df. rating_movie_id row \<notin> rating_movie_id ` {r \<in> set df. P r}] =
         [row \<leftarrow> df. \<not> P row]"
proof (rule filter_cong[OF refl])
  fix row assume row: "row \<in> set df"
  have inj: "inj_on rating_movie_id (set df)"
    using assms by (simp add: distinct_map)
  have "rating_movie_id row \<in> rating_movie_id ` {r \<in> set df. P r} \<longleftrightarrow> P row"
  proof
    assume "rating_movie_id row \<in> rating_movie_id ` {r \<in> set df. P r}"
    then obtain r where "r \<in> set df" "P r" "rating_movie_id row = rating_movie_id r"
      by auto
    with inj row show "P row" by (auto dest: inj_onD)
  next
    assume "P row"
    with row show "rating_movie_id row \<in> rating_movie_id ` {r \<in> set df. P r}" by auto
  qed
  then show "(rating_movie_id row \<notin> rating_movie_id ` {r \<in> set df. P r}) = (\<not> P row)"
    by simp
qed

lemma neither_good_nor_bad:
  "x \<noteq> NaN \<Longrightarrow> (\<not> (float_ge x g \<or> float_le x b)) = (float_gt x b \<and> float_lt x g)"
  by (cases x) auto

text \<open>
  C9, as amended. Without a watched dataframe the history list of \<^verbatim>\<open>__prep_data\<close> is the
  list of rated movies whose rating is strictly between \<^verbatim>\<open>bad_threshold\<close> and
  \<^verbatim>\<open>good_threshold\<close>. With one, the list is the same whatever the watched dataframe
  holds: it is the list of the rated movies whose id is the id of no row rated at least
  \<^verbatim>\<open>good_threshold\<close> or at most \<^verbatim>\<open>bad_threshold\<close>. When no movie id occurs in two rows
  of the ratings dataframe and no rating is missing (nan), that is again the list of rated
  movies with a rating strictly between the thresholds.
\<close>

theorem hist_list_ignores_watched:
  "hist_list_of (prep_data df None wl g b) =
     map rating_movie_id [row \<leftarrow> df. float_gt (rating row) b \<and> float_lt (rating row) g] \<and>
   hist_list_of (prep_data df (Some w1) wl g b) = hist_list_of (prep_data df (Some w2) wl g b) \<and>
   hist_list_of (prep_data df (Some w1) wl g b) =
     map rating_movie_id
       [row \<leftarrow> df. rating_movie_id row \<notin>
          rating_movie_id ` {r \<in> set df. float_ge (rating r) g \<or> float_le (rating r) b}] \<and>
   (distinct (map rating_movie_id df) \<and> NaN \<notin> rating ` set df \<longrightarrow>
      hist_list_of (prep_data df (Some w1) wl g b) =
        map rating_movie_id [row \<leftarrow> df. float_gt (rating row) b \<and> float_lt (rating row) g])"
proof -
  have some: "hist_list_of (prep_data df (Some w) wl g b) =
      map rating_movie_id
        [row \<leftarrow> df. rating_movie_id row \<notin>
           rating_movie_id ` {r \<in> set df. float_ge (rating r) g \<or> float_le (rating r) b}]" for w
  proof -
    have "set (map rating_movie_id [row \<leftarrow> df. float_ge (rating row) g] @
               map rating_movie_id [row \<leftarrow> df. float_le (rating row) b]) =
          rating_movie_id ` {r \<in> set df. float_ge (rating r) g \<or> float_le (rating r) b}"
      by auto
    then show ?thesis
      by (simp add: prep_data_def hist_list_of_def Let_def del: set_append set_map map_append)
  qed
  have none: "hist_list_of (prep_data df None wl g b) =
      map rating_movie_id [row \<leftarrow> df. float_gt (rating row) b \<and> float_lt (rating row) g]"
    by (simp add: prep_data_def hist_list_of_def Let_def)
  show ?thesis
  proof (intro conjI impI)
    show "hist_list_of (prep_data df None wl g b) =
        map rating_movie_id [row \<leftarrow> df. float_gt (rating row) b \<and> float_lt (rating row) g]"
      by (rule none)
  next
    show "hist_list_of (prep_data df (Some w1) wl g b) =
        hist_list_of (prep_data df (Some w2) wl g b)"
      by (simp only: some)
  next
    show "hist_list_of (prep_data df (Some w1) wl g b) =
        map rating_movie_id
          [row \<leftarrow> df. rating_movie_id row \<notin>
             rating_movie_id ` {r \<in> set df. float_ge (rating r) g \<or> float_le (rating r) b}]"
      by (rule some)
  next
    assume a: "distinct (map rating_movie_id df) \<and> NaN \<notin> rating ` set df"
    then have d: "distinct (map rating_movie_id df)" by simp
    have neutral: "[row \<leftarrow> df. \<not> (float_ge (rating row) g \<or> float_le (rating row) b)] =
        [row \<leftarrow> df. float_gt (rating row) b \<and> float_lt (rating row) g]"
    proof (rule filter_cong[OF refl])
      fix row assume "row \<in> set df"
      with a have "rating row \<noteq> NaN" by force
      then show "(\<not> (float_ge (rating row) g \<or> float_le (rating row) b)) =
          (float_gt (rating row) b \<and> float_lt (rating row) g)"
        by (rule neither_good_nor_bad)
    qed
    show "hist_list_of (prep_data df (Some w1) wl g b) =
        map rating_movie_id [row \<leftarrow> df. float_gt (rating row) b \<and> float_lt (rating row) g]"
      by (simp only: some filter_by_id[OF d] neutral)
  qed
qed

theorem hist_list_ignores_watched_witness:
  "distinct (map rating_movie_id [(1, ''A'', Float 5), (2, ''B'', Float 3.5), (3, ''C'', Float 1)]) \<and>
   NaN \<notin> rating ` set [(1, ''A'', Float 5), (2, ''B'', Float 3.5), (3, ''C'', Float 1)] \<and>
   hist_list_of (prep_data [(1, ''A'', Float 5), (2, ''B'', Float 3.5), (3, ''C'', Float 1)]
     (Some [(1, ''A'')]) None 4 3) = [''B'']"
proof -
  have d: "distinct (map rating_movie_id
      [(1, ''A'', Float 5), (2, ''B'', Float 3.5), (3, ''C'', Float 1)])"
    by (simp add: rating_movie_id_def)
  have n: "NaN \<notin> rating ` set [(1, ''A'', Float 5), (2, ''B'', Float 3.5), (3, ''C'', Float 1)]"
    by (simp add: rating_def)
  have "hist_list_of (prep_data [(1, ''A'', Float 5), (2, ''B'', Float 3.5), (3, ''C'', Float 1)]
      (Some [(1, ''A'')]) None 4 3) =
      map rating_movie_id
        [row \<leftarrow> [(1, ''A'', Float 5), (2, ''B'', Float 3.5), (3, ''C'', Float 1)].
           float_gt (rating row) 3 \<and> float_lt (rating row) 4]"
    using d n
      hist_list_ignores_watched[where df = "[(1, ''A'', Float 5), (2, ''B'', Float 3.5),
          (3, ''C'', Float 1)]"
        and ?w1.0 = "[(1, ''A'')]" and ?w2.0 = "[(1, ''A'')]" and wl = None and g = 4 and b = 3]
    by blast
  then have "hist_list_of (prep_data [(1, ''A'', Float 5), (2, ''B'', Float 3.5),
      (3, ''C'', Float 1)] (Some [(1, ''A'')]) None 4 3) = [''B'']"
    by (simp add: rating_def rating_movie_id_def)
  with d n show ?thesis by blast
qed

theorem hist_list_with_watched_counterexample:
  "hist_list_of (prep_data [(1, ''A'', Float 5), (2, ''A'', Float 3.5)] None None 4 3) = [''A''] \<and>
   hist_list_of (prep_data [(1, ''A'', Float 5), (2, ''A'', Float 3.5)] (Some []) None 4 3) = [] \<and>
   hist_list_of (prep_data [(1, ''A'', Float 5), (2, ''N'', NaN)] None None 4 3) = [] \<and>
   hist_list_of (prep_data [(1, ''A'', Float 5), (2, ''N'', NaN)] (Some []) None 4 3) = [''N'']"
  by (simp add: prep_data_def hist_list_of_def rating_def rating_movie_id_def)

section \<open>Recommendations for a user\<close>

text \<open>
  C10. For every user with no row in \<^verbatim>\<open>user_ratings\<close>, \<^verbatim>\<open>get_recommendations\<close> returns the
  plain string "User does not have ratings", whatever the store, the libraries and the
  other tables hold; the request made one query and closed the cursor, and did not run
  \<^verbatim>\<open>__predict\<close>, hence no aggregation, suppression or search.
\<close>

theorem no_ratings_message:
  "fetchall (user_ratings db) (user_id payload) = [] \<Longrightarrow>
     get_recommendations np clf sbv book db payload =
       (Inr (Message ''User does not have ratings''),
        [Execute ''user_ratings'' (user_id payload), Cursor_close]) \<and>
     Predict \<notin> set (snd (get_recommendations np clf sbv book db payload))"
  by (simp add: get_recommendations_def Let_def)

theorem no_ratings_message_witness:
  "fetchall (user_ratings sample_db) 2 = [] \<and>
   get_recommendations symbolic sample_clf sample_sbv sample_book sample_db
     \<lparr>user_id = 2, num_recs = 10, good_threshold = 4, bad_threshold = 3, harshness = 1\<rparr> =
     (Inr (Message ''User does not have ratings''), [Execute ''user_ratings'' 2, Cursor_close])"
proof -
  have e: "fetchall (user_ratings sample_db)
      (user_id \<lparr>user_id = 2, num_recs = 10, good_threshold = 4, bad_threshold = 3,
                 harshness = 1\<rparr>) = []"
    by (simp add: fetchall_def sample_db_def)
  show ?thesis
    using e no_ratings_message[OF e, of symbolic sample_clf sample_sbv sample_book] by simp
qed

end
